theory Spec2Isabelle
  imports Main
begin

section \<open>Python values used by the query client\<close>

text \<open>
  The client (\<^verbatim>\<open>tickvaultpythonapi/client.py\<close>) is dynamically typed. The values its helpers
  receive are modelled by the datatypes below: a \<^verbatim>\<open>str\<close>, an \<^verbatim>\<open>int\<close>, or a \<^verbatim>\<open>list\<close> whose elements
  are strings or integers (the element types the client passes: ticker symbols, field names,
  limits). A Python \<^verbatim>\<open>str\<close> is modelled as \<^typ>\<open>string\<close>.

  \<^verbatim>\<open>sys.exit(msg)\<close> raises \<^verbatim>\<open>SystemExit\<close>; unpacking a non-mapping with \<^verbatim>\<open>**\<close> raises
  \<^verbatim>\<open>TypeError\<close>. Both are values of \<open>py_exc\<close>, and a function that may raise returns
  \<open>py_exc + 'a\<close>.
\<close>

datatype py_item = IStr string | IInt int

datatype py_value = VStr string | VInt int | VList "py_item list"

datatype py_exc = SystemExit string | TypeError

subsection \<open>\<^verbatim>\<open>str(x)\<close>, \<^verbatim>\<open>s.split(sep)\<close> and \<^verbatim>\<open>sep.join(xs)\<close>\<close>

fun str_nat :: "nat \<Rightarrow> string" where
  "str_nat n =
     (if n < 10 then [''0123456789'' ! n]
      else str_nat (n div 10) @ [''0123456789'' ! (n mod 10)])"

definition str_int :: "int \<Rightarrow> string" where
  "str_int i = (if i < 0 then CHR ''-'' # str_nat (nat (- i)) else str_nat (nat i))"

text \<open>Python's builtin \<^verbatim>\<open>str\<close> on a list element.\<close>

fun py_str :: "py_item \<Rightarrow> string" where
  "py_str (IStr s) = s"
| "py_str (IInt i) = str_int i"

text \<open>
  \<^verbatim>\<open>s.split(sep)\<close> for a one-character separator: every occurrence of the separator ends a
  piece, so the result is never empty and \<^verbatim>\<open>"".split(",")\<close> is \<^verbatim>\<open>[""]\<close>.
\<close>

fun py_split :: "char \<Rightarrow> string \<Rightarrow> string list" where
  "py_split sep [] = [[]]"
| "py_split sep (c # cs) =
     (if c = sep then [] # py_split sep cs
      else (case py_split sep cs of
              [] \<Rightarrow> [[c]]
            | w # ws \<Rightarrow> (c # w) # ws))"

text \<open>\<^verbatim>\<open>sep.join(xs)\<close>.\<close>

fun py_join :: "string \<Rightarrow> string list \<Rightarrow> string" where
  "py_join sep [] = []"
| "py_join sep [x] = x"
| "py_join sep (x # y # ys) = x @ sep @ py_join sep (y # ys)"

section \<open>The conversion helpers of \<^verbatim>\<open>BaseClient\<close>\<close>

text \<open>
  \<^verbatim>\<open>_str_to_list\<close> and \<^verbatim>\<open>_list_to_str\<close> (client.py, lines 43 to 57); the leading underscore of
  the Python names is dropped. Neither uses its \<^verbatim>\<open>field_name\<close> argument.
\<close>

fun str_to_list :: "string \<Rightarrow> py_value \<Rightarrow> py_exc + py_value" where
  "str_to_list field_name (VStr s) = Inr (VList (map IStr (py_split CHR '','' s)))"
| "str_to_list field_name (VList xs) = Inr (VList xs)"
| "str_to_list field_name (VInt i) = Inl (SystemExit ''Fields needs to be a list or a string'')"

fun list_to_str :: "string \<Rightarrow> py_value \<Rightarrow> py_exc + py_value" where
  "list_to_str field_name (VList xs) = Inr (VStr (py_join '','' (map py_str xs)))"
| "list_to_str field_name (VStr s) = Inr (VStr s)"
| "list_to_str field_name (VInt i) = Inl (SystemExit ''Tickers needs to be a list or a string'')"

text \<open>Sequencing two calls: an exception raised by the first is the result.\<close>

definition and_then :: "'e + 'a \<Rightarrow> ('a \<Rightarrow> 'e + 'b) \<Rightarrow> 'e + 'b" where
  "and_then r f = (case r of Inl e \<Rightarrow> Inl e | Inr x \<Rightarrow> f x)"

section \<open>Dictionaries\<close>

text \<open>
  A Python \<^verbatim>\<open>dict\<close> keeps its items in insertion order and has no two items with the same
  key. It is modelled as an association list in insertion order; \<open>map_of\<close> reads it.
  \<open>dict_setitem\<close> is \<^verbatim>\<open>d[k] = v\<close>: an existing key keeps its position and gets the new value,
  a new key is appended.
\<close>

type_synonym py_dict = "(string \<times> string) list"

fun dict_setitem :: "string \<Rightarrow> string \<Rightarrow> py_dict \<Rightarrow> py_dict" where
  "dict_setitem k v [] = [(k, v)]"
| "dict_setitem k v ((k', v') # d) =
     (if k' = k then (k', v) # d else (k', v') # dict_setitem k v d)"

text \<open>\<^verbatim>\<open>d.update(items)\<close>: the items are stored one after the other, in their order.\<close>

definition dict_update :: "py_dict \<Rightarrow> (string \<times> string) list \<Rightarrow> py_dict" where
  "dict_update d items = foldl (\<lambda>acc (k, v). dict_setitem k v acc) d items"

text \<open>\<^verbatim>\<open>dict(pairs)\<close>: a new dictionary filled from a list of 2-tuples.\<close>

definition dict_of_pairs :: "(string \<times> string) list \<Rightarrow> py_dict" where
  "dict_of_pairs pairs = dict_update [] pairs"

text \<open>
  The dictionary display \<^verbatim>\<open>{**a, **b}\<close>: a new dictionary that receives the items of \<open>a\<close>,
  then the items of \<open>b\<close>.
\<close>

definition dict_unpack :: "py_dict \<Rightarrow> py_dict \<Rightarrow> py_dict" where
  "dict_unpack a b = dict_update (dict_update [] a) b"

section \<open>Predicate terms\<close>

datatype operator = EQ | NEQ | GTE | LTE | GT | LT

record PredicateTerm =
  field :: string
  operator :: operator
  "values" :: "string list"

type_synonym PredicateExpression = "PredicateTerm list"

text \<open>
  Modelled from the spec: the class \<^verbatim>\<open>Predicate\<close> of \<^verbatim>\<open>tickvaultpythonapi.parsing.predicate\<close>,
  which \<^verbatim>\<open>client.py\<close> imports and whose method \<^verbatim>\<open>get_as_tuple\<close> it maps over the predicates, is
  not among the source files. The specification (section 4.2, encoding rule) gives the tuple:
  its first element is exactly the term's field, its second element is the comma-join of the
  term's values in their original order, with no escaping; the operator is not encoded.
\<close>

definition get_as_tuple :: "PredicateTerm \<Rightarrow> string \<times> string" where
  "get_as_tuple t = (field t, py_join '','' (values t))"

section \<open>\<^verbatim>\<open>BaseClient.run_query\<close>: predicates into parameters\<close>

text \<open>
  \<^verbatim>\<open>run_query(self, pattern, replace_dict, auth, params="", predicates="")\<close>, lines 116 to 121:
  \<^verbatim>\<open>
  if predicates:
      if not params:
          params = {}
      preds = dict(list(map(Predicate.get_as_tuple, predicates)))
      params = {**params, **preds}
  \<close>
  The value of \<^verbatim>\<open>params\<close> after these lines is what \<^verbatim>\<open>run_query\<close> hands to \<^verbatim>\<open>query\<close>.

  \<^verbatim>\<open>params\<close> is a dictionary by its documentation and the empty string by default, so it is
  a \<open>py_params\<close>. \<^verbatim>\<open>predicates\<close> is a list of predicate objects; its default, the empty string,
  is as false as the empty list and takes the same branch.
\<close>

datatype py_params = ParamStr string | ParamDict py_dict

fun truthy :: "py_params \<Rightarrow> bool" where
  "truthy (ParamStr s) = (s \<noteq> [])"
| "truthy (ParamDict d) = (d \<noteq> [])"

definition run_query_params :: "PredicateExpression \<Rightarrow> py_params \<Rightarrow> py_exc + py_params" where
  "run_query_params predicates params =
     (if predicates \<noteq> [] then
        (let params1 = (if \<not> truthy params then ParamDict [] else params);
             preds = dict_of_pairs (map get_as_tuple predicates)
         in (case params1 of
               ParamDict d \<Rightarrow> Inr (ParamDict (dict_unpack d preds))
             | ParamStr s \<Rightarrow> Inl TypeError))
      else Inr params)"

text \<open>The example expression of the specification: \<^verbatim>\<open>line_type = QA,QB and askprice >= 3\<close>.\<close>

definition example_expression :: PredicateExpression where
  "example_expression =
     [\<lparr>field = ''line_type'', operator = EQ, values = [''QA'', ''QB'']\<rparr>,
      \<lparr>field = ''askprice'', operator = GTE, values = [''3'']\<rparr>]"

subsection \<open>The same lines on a heap of objects\<close>

text \<open>
  Python passes references: \<^verbatim>\<open>params\<close> and \<^verbatim>\<open>predicates\<close> name objects that the caller still
  holds. The heap maps addresses to objects, list objects and string or dictionary objects
  apart, and \<open>next_free\<close> is the first address not yet allocated. The three assignments of
  the lines above each bind a name to a newly built dictionary; no statement stores into an
  existing object.
\<close>

record heap =
  lists :: "nat \<Rightarrow> PredicateExpression"
  objs :: "nat \<Rightarrow> py_params"
  next_free :: nat

definition new_dict :: "py_dict \<Rightarrow> heap \<Rightarrow> nat \<times> heap" where
  "new_dict d h =
     (next_free h,
      h\<lparr>objs := (objs h)(next_free h := ParamDict d), next_free := Suc (next_free h)\<rparr>)"

definition run_query_heap :: "nat \<Rightarrow> nat \<Rightarrow> heap \<Rightarrow> py_exc + nat \<times> heap" where
  "run_query_heap predicates params h =
     (if lists h predicates \<noteq> [] then
        (let (params1, h1) =
               (if \<not> truthy (objs h params) then new_dict [] h else (params, h));
             (preds, h2) =
               new_dict (dict_of_pairs (map get_as_tuple (lists h1 predicates))) h1
         in (case objs h2 params1 of
               ParamDict d \<Rightarrow>
                 (case objs h2 preds of
                    ParamDict e \<Rightarrow> Inr (new_dict (dict_unpack d e) h2)
                  | ParamStr s \<Rightarrow> Inl TypeError)
             | ParamStr s \<Rightarrow> Inl TypeError))
      else Inr (params, h))"

text \<open>
  A heap for the example: the expression of the specification at list address 0, the
  caller's dictionary \<^verbatim>\<open>{"limit": "10"}\<close> at object address 0.
\<close>

definition example_heap :: heap where
  "example_heap =
     \<lparr>lists = (\<lambda>a. if a = 0 then example_expression else []),
      objs = (\<lambda>a. if a = 0 then ParamDict [(''limit'', ''10'')] else ParamStr []),
      next_free = 1\<rparr>"

section \<open>The predicate language\<close>

text \<open>
  The parser of the predicate language (\<^verbatim>\<open>tickvaultpythonapi.parsing\<close>) is not among the source
  files. Every definition of this section is modelled from the specification, sections 3, 4.1
  and 7, whose grammar is
  \<^verbatim>\<open>
  expression   := term (CONJUNCTION term)*
  CONJUNCTION  := "and"            (case-insensitive, whitespace-delimited)
  term         := field WS operator WS value_list
  field        := identifier
  operator     := "=" | "!=" | "<>" | ">=" | "<=" | ">" | "<"
  value_list   := value ("," value)*
  value        := quoted_string | bare_token
  \<close>
  A parse returns the expression or one error, never both.
\<close>

text \<open>
  Modelled from the spec: the error kinds of section 7. \<open>InvalidTermError\<close> belongs to the
  entry that takes term objects already built; the parser of strings returns the other two.
\<close>

datatype parse_error = PredicateSyntaxError | UnsupportedOperatorError | InvalidTermError

text \<open>
  Modelled from the spec: the character classes of the grammar. An identifier is made of
  letters, digits and the underscore; a quoted string is wrapped in single or double quotes;
  a bare token is a run of characters that are no whitespace, no comma and no quote. A symbol
  is a bare character that cannot be part of an identifier: an operator token is a run of
  symbols.
\<close>

definition is_space :: "char \<Rightarrow> bool" where
  "is_space c = (c \<in> set [CHR '' '', CHR 0x09, CHR 0x0A, CHR 0x0B, CHR 0x0C, CHR 0x0D])"

definition is_letter :: "char \<Rightarrow> bool" where
  "is_letter c = (c \<in> set ''abcdefghijklmnopqrstuvwxyzABCDEFGHIJKLMNOPQRSTUVWXYZ'')"

definition is_digit :: "char \<Rightarrow> bool" where
  "is_digit c = (c \<in> set ''0123456789'')"

definition is_ident_char :: "char \<Rightarrow> bool" where
  "is_ident_char c = (is_letter c \<or> is_digit c \<or> c = CHR ''_'')"

definition is_quote :: "char \<Rightarrow> bool" where
  "is_quote c = (c = CHR 0x22 \<or> c = CHR 0x27)"

definition is_comma :: "char \<Rightarrow> bool" where
  "is_comma c = (c = CHR '','')"

definition is_bare_char :: "char \<Rightarrow> bool" where
  "is_bare_char c = (\<not> is_space c \<and> \<not> is_comma c \<and> \<not> is_quote c)"

definition is_symbol :: "char \<Rightarrow> bool" where
  "is_symbol c = (is_bare_char c \<and> \<not> is_ident_char c)"

text \<open>
  Modelled from the spec: the conjunction keyword is the word \<^verbatim>\<open>and\<close>, matched without regard
  to case.
\<close>

definition lower :: "char \<Rightarrow> char" where
  "lower c =
     (case map_of (zip ''ABCDEFGHIJKLMNOPQRSTUVWXYZ'' ''abcdefghijklmnopqrstuvwxyz'') c of
        None \<Rightarrow> c
      | Some l \<Rightarrow> l)"

definition is_keyword :: "string \<Rightarrow> bool" where
  "is_keyword w = (map lower w = ''and'')"

text \<open>
  Modelled from the spec: whitespace around tokens is insignificant and is trimmed; every
  value is a trimmed string.
\<close>

definition skip_ws :: "string \<Rightarrow> string" where
  "skip_ws s = dropWhile is_space s"

definition trim :: "string \<Rightarrow> string" where
  "trim s = rev (skip_ws (rev (skip_ws s)))"

text \<open>
  Modelled from the spec: the closed enumeration of operators with their surface spellings;
  \<^verbatim>\<open>!=\<close> and \<^verbatim>\<open><>\<close> both spell \<open>NEQ\<close>.
\<close>

definition operator_table :: "(string \<times> operator) list" where
  "operator_table =
     [(''!='', NEQ), (''<>'', NEQ), (''>='', GTE), (''<='', LTE),
      (''='', EQ), (''>'', GT), (''<'', LT)]"

text \<open>
  Modelled from the spec: the operator of a term. The operator token is the longest run of
  symbols at this place, which is how the longest spelling wins: \<^verbatim>\<open>>=\<close> is never read as
  \<^verbatim>\<open>>\<close> before \<^verbatim>\<open>=\<close>. A token that is no spelling of the enumeration is an
  \<open>UnsupportedOperatorError\<close>; no token at all is a term that misses its operator, a
  \<open>PredicateSyntaxError\<close>. A value that starts with a symbol is set off from the operator by
  whitespace or quotes.
\<close>

definition parse_operator :: "string \<Rightarrow> parse_error + operator \<times> string" where
  "parse_operator s =
     (let tok = takeWhile is_symbol s
      in if tok = [] then Inl PredicateSyntaxError
         else (case map_of operator_table tok of
                 None \<Rightarrow> Inl UnsupportedOperatorError
               | Some op \<Rightarrow> Inr (op, dropWhile is_symbol s)))"

text \<open>
  Modelled from the spec: one value, a quoted string or a bare token, read at the head of
  the input. A quoted string runs to the next occurrence of its opening quote and may hold
  commas and spaces; an unterminated one is a syntax error. A missing value (the end of the
  input, or a comma or the conjunction keyword where the value should start) is a syntax
  error, and so is a value that is empty once trimmed. The keyword is a value only in quotes.
\<close>

definition parse_value :: "string \<Rightarrow> parse_error + string \<times> string" where
  "parse_value s =
     (case s of
        [] \<Rightarrow> Inl PredicateSyntaxError
      | c # cs \<Rightarrow>
          if is_quote c then
            (case dropWhile (\<lambda>x. x \<noteq> c) cs of
               [] \<Rightarrow> Inl PredicateSyntaxError
             | q # rest \<Rightarrow>
                 (let v = trim (takeWhile (\<lambda>x. x \<noteq> c) cs)
                  in if v = [] then Inl PredicateSyntaxError else Inr (v, rest)))
          else if is_bare_char c then
            (let tok = takeWhile is_bare_char s
             in if is_keyword tok then Inl PredicateSyntaxError
                else Inr (tok, dropWhile is_bare_char s))
          else Inl PredicateSyntaxError)"

lemma parse_value_shorter:
  assumes "parse_value s = Inr (v, r)"
  shows "length r < length s"
proof (cases s)
  case Nil
  with assms show ?thesis by (simp add: parse_value_def)
next
  case (Cons c cs)
  show ?thesis
  proof (cases "is_quote c")
    case True
    with assms Cons obtain q where "dropWhile (\<lambda>x. x \<noteq> c) cs = q # r"
      by (auto simp: parse_value_def Let_def split: list.splits if_splits)
    with length_dropWhile_le [of "\<lambda>x. x \<noteq> c" cs] Cons show ?thesis by simp
  next
    case False
    with assms Cons have "r = dropWhile is_bare_char cs"
      by (auto simp: parse_value_def Let_def split: if_splits)
    with length_dropWhile_le [of is_bare_char cs] Cons show ?thesis by simp
  qed
qed

lemma skip_ws_length: "length (skip_ws s) \<le> length s"
  by (simp add: skip_ws_def length_dropWhile_le)

text \<open>
  Modelled from the spec: \<^verbatim>\<open>value_list := value ("," value)*\<close>. The values are returned in
  their order together with the input that follows the last one.
\<close>

function parse_value_list :: "string \<Rightarrow> parse_error + string list \<times> string" where
  "parse_value_list s =
     (case parse_value (skip_ws s) of
        Inl e \<Rightarrow> Inl e
      | Inr (v, r) \<Rightarrow>
          (case skip_ws r of
             [] \<Rightarrow> Inr ([v], r)
           | c # r' \<Rightarrow>
               if is_comma c then
                 (case parse_value_list r' of
                    Inl e \<Rightarrow> Inl e
                  | Inr (vs, r'') \<Rightarrow> Inr (v # vs, r''))
               else Inr ([v], r)))"
  by pat_completeness auto
termination
proof (relation "measure length")
  show "wf (measure length)" by simp
next
  fix s :: string and x v r c r'
  assume "parse_value (skip_ws s) = Inr x" "(v, r) = x" "skip_ws r = c # r'"
  then have "length r < length (skip_ws s)" and "length (c # r') \<le> length r"
    using parse_value_shorter [of "skip_ws s" v r] skip_ws_length [of r] by auto
  then show "(r', s) \<in> measure length"
    using skip_ws_length [of s] by simp
qed

declare parse_value_list.simps [simp del]

text \<open>
  Modelled from the spec: \<^verbatim>\<open>term := field WS operator WS value_list\<close>. The field is the
  longest run of identifier characters; it must not be empty and must not start with a digit.
\<close>

definition parse_term :: "string \<Rightarrow> parse_error + PredicateTerm \<times> string" where
  "parse_term s =
     (let s1 = skip_ws s; f = takeWhile is_ident_char s1
      in case f of
           [] \<Rightarrow> Inl PredicateSyntaxError
         | c # _ \<Rightarrow>
             if is_digit c then Inl PredicateSyntaxError
             else (case parse_operator (skip_ws (dropWhile is_ident_char s1)) of
                     Inl e \<Rightarrow> Inl e
                   | Inr (op, r) \<Rightarrow>
                       (case parse_value_list r of
                          Inl e \<Rightarrow> Inl e
                        | Inr (vs, r') \<Rightarrow>
                            Inr (\<lparr>field = f, operator = op, values = vs\<rparr>, r'))))"

text \<open>
  Modelled from the spec: the conjunction is the word \<^verbatim>\<open>and\<close> in any case, delimited by
  whitespace; this tests the word and the whitespace after it.
\<close>

definition is_conjunction :: "string \<Rightarrow> bool" where
  "is_conjunction s =
     (is_keyword (take 3 s) \<and> (case drop 3 s of [] \<Rightarrow> False | c # _ \<Rightarrow> is_space c))"

lemma parse_value_list_shorter:
  "parse_value_list s = Inr (vs, r) \<Longrightarrow> length r < length s"
proof (induction s arbitrary: vs r rule: parse_value_list.induct)
  case (1 s)
  from "1.prems" obtain v r0 where v: "parse_value (skip_ws s) = Inr (v, r0)"
    by (subst (asm) parse_value_list.simps) (auto split: sum.splits)
  have r0: "length r0 < length s"
    using parse_value_shorter [OF v] skip_ws_length [of s] by simp
  show ?case
  proof (cases "skip_ws r0")
    case Nil
    with "1.prems" v r0 show ?thesis
      by (subst (asm) parse_value_list.simps) simp
  next
    case (Cons c r')
    show ?thesis
    proof (cases "is_comma c")
      case True
      with "1.prems" v Cons obtain vs' where rec: "parse_value_list r' = Inr (vs', r)"
        by (subst (asm) parse_value_list.simps) (auto split: sum.splits)
      have "length r < length r'"
        using "1.IH" [OF v refl Cons True rec] .
      moreover have "length r' < length r0"
        using skip_ws_length [of r0] Cons by simp
      ultimately show ?thesis using r0 by simp
    next
      case False
      with "1.prems" v Cons r0 show ?thesis
        by (subst (asm) parse_value_list.simps) simp
    qed
  qed
qed

lemma parse_operator_shorter: "parse_operator s = Inr (op, r) \<Longrightarrow> length r \<le> length s"
  by (auto simp: parse_operator_def Let_def length_dropWhile_le split: option.splits if_splits)

lemma parse_term_parts:
  assumes "parse_term s = Inr (t, r)"
  obtains c cs op r1 vs where
    "takeWhile is_ident_char (skip_ws s) = c # cs"
    "parse_operator (skip_ws (dropWhile is_ident_char (skip_ws s))) = Inr (op, r1)"
    "parse_value_list r1 = Inr (vs, r)"
proof (cases "takeWhile is_ident_char (skip_ws s)")
  case Nil
  with assms show ?thesis by (simp add: parse_term_def)
next
  case (Cons c cs)
  show ?thesis
  proof (cases "parse_operator (skip_ws (dropWhile is_ident_char (skip_ws s)))")
    case (Inl e)
    with assms Cons show ?thesis by (simp add: parse_term_def split: if_splits)
  next
    case (Inr p)
    obtain op r1 where p: "p = (op, r1)" by (cases p)
    show ?thesis
    proof (cases "parse_value_list r1")
      case Inl2: (Inl e)
      with assms Cons Inr p show ?thesis by (simp add: parse_term_def split: if_splits)
    next
      case Inr2: (Inr q)
      obtain vs r' where q: "q = (vs, r')" by (cases q)
      from assms Cons Inr p Inr2 q have "r' = r"
        by (simp add: parse_term_def split: if_splits)
      with Cons Inr p Inr2 q show ?thesis by (intro that) simp_all
    qed
  qed
qed

lemma parse_term_shorter:
  assumes "parse_term s = Inr (t, r)"
  shows "length r < length s"
proof -
  from assms obtain c cs op r1 vs where
    op: "parse_operator (skip_ws (dropWhile is_ident_char (skip_ws s))) = Inr (op, r1)"
    and vl: "parse_value_list r1 = Inr (vs, r)"
    by (rule parse_term_parts)
  have "length r1 \<le> length s"
    using parse_operator_shorter [OF op]
      skip_ws_length [of "dropWhile is_ident_char (skip_ws s)"]
      length_dropWhile_le [of is_ident_char "skip_ws s"] skip_ws_length [of s]
    by simp
  with parse_value_list_shorter [OF vl] show ?thesis by simp
qed

text \<open>
  Modelled from the spec: \<^verbatim>\<open>expression := term (CONJUNCTION term)*\<close>. After a term the input
  ends, or whitespace and the conjunction introduce the next term; anything else is a syntax
  error. No term list is returned unless every term parsed.
\<close>

function parse_terms :: "string \<Rightarrow> parse_error + PredicateExpression" where
  "parse_terms s =
     (case parse_term s of
        Inl e \<Rightarrow> Inl e
      | Inr (t, r) \<Rightarrow>
          (let r' = skip_ws r
           in if r' = [] then Inr [t]
              else if r \<noteq> r' \<and> is_conjunction r' then
                (case parse_terms (drop 3 r') of
                   Inl e \<Rightarrow> Inl e
                 | Inr ts \<Rightarrow> Inr (t # ts))
              else Inl PredicateSyntaxError))"
  by pat_completeness auto
termination
proof (relation "measure length")
  show "wf (measure length)" by simp
next
  fix s :: string and x t r r'
  assume "parse_term s = Inr x" "(t, r) = x" "r' = skip_ws r"
  then have "length r < length s" and "length r' \<le> length r"
    using parse_term_shorter [of s t r] skip_ws_length [of r] by auto
  then show "(drop 3 r', s) \<in> measure length" by simp
qed

declare parse_terms.simps [simp del]

text \<open>
  Modelled from the spec: \<^verbatim>\<open>parse\<close> on a raw string. An empty or blank string is a syntax
  error; otherwise the string is an expression.
\<close>

definition parse :: "string \<Rightarrow> parse_error + PredicateExpression" where
  "parse s = (if skip_ws s = [] then Inl PredicateSyntaxError else parse_terms s)"




section \<open>Splitting and joining\<close>

lemma py_split_not_Nil: "py_split sep s \<noteq> []"
  by (induction s) (auto split: list.splits)

lemma py_join_Cons:
  "py_join sep (x # xs) = (if xs = [] then x else x @ sep @ py_join sep xs)"
  by (cases xs) simp_all

lemma py_join_py_split: "py_join [sep] (py_split sep s) = s"
proof (induction s)
  case Nil
  show ?case by simp
next
  case (Cons c cs)
  obtain w ws where sp: "py_split sep cs = w # ws"
    using py_split_not_Nil [of sep cs] by (cases "py_split sep cs") auto
  from Cons sp have join: "py_join [sep] (w # ws) = cs" by simp
  show ?case
  proof (cases "c = sep")
    case True
    with sp join show ?thesis by (simp add: py_join_Cons)
  next
    case False
    with sp join show ?thesis by (auto simp: py_join_Cons split: if_splits)
  qed
qed

section \<open>Dictionary operations\<close>

lemma map_of_dict_setitem: "map_of (dict_setitem k v d) = (map_of d)(k \<mapsto> v)"
  by (induction d) (auto simp: fun_eq_iff)

lemma keys_dict_setitem: "fst ` set (dict_setitem k v d) = insert k (fst ` set d)"
  by (simp add: dom_map_of_conv_image_fst [symmetric] map_of_dict_setitem)

lemma distinct_dict_setitem:
  "distinct (map fst d) \<Longrightarrow> distinct (map fst (dict_setitem k v d))"
  by (induction d) (auto simp: keys_dict_setitem)

lemma length_dict_setitem: "length (dict_setitem k v d) \<le> Suc (length d)"
  by (induction d) auto

lemma dict_setitem_new: "k \<notin> fst ` set d \<Longrightarrow> dict_setitem k v d = d @ [(k, v)]"
  by (induction d) auto

lemma dict_update_Nil: "dict_update d [] = d"
  by (simp add: dict_update_def)

lemma dict_update_Cons: "dict_update d ((k, v) # items) = dict_update (dict_setitem k v d) items"
  by (simp add: dict_update_def)

lemma map_of_dict_update: "map_of (dict_update d items) = map_of d ++ map_of (rev items)"
proof (induction items arbitrary: d)
  case Nil
  show ?case by (simp add: dict_update_Nil)
next
  case (Cons p items)
  obtain k v where p: "p = (k, v)" by (cases p)
  have "map_of (dict_update d (p # items)) = map_of (dict_setitem k v d) ++ map_of (rev items)"
    by (simp add: p dict_update_Cons Cons.IH)
  also have "\<dots> = (map_of d)(k \<mapsto> v) ++ map_of (rev items)"
    by (simp only: map_of_dict_setitem)
  also have "\<dots> = map_of d ++ map_of (rev (p # items))"
    by (simp add: p fun_eq_iff map_add_def split: option.splits)
  finally show ?case .
qed

lemma distinct_dict_update:
  "distinct (map fst d) \<Longrightarrow> distinct (map fst (dict_update d items))"
proof (induction items arbitrary: d)
  case Nil
  then show ?case by (simp add: dict_update_Nil)
next
  case (Cons p items)
  obtain k v where p: "p = (k, v)" by (cases p)
  from Cons.prems have "distinct (map fst (dict_setitem k v d))"
    by (rule distinct_dict_setitem)
  then show ?case by (simp add: p dict_update_Cons Cons.IH)
qed

lemma length_dict_update: "length (dict_update d items) \<le> length d + length items"
proof (induction items arbitrary: d)
  case Nil
  show ?case by (simp add: dict_update_Nil)
next
  case (Cons p items)
  obtain k v where p: "p = (k, v)" by (cases p)
  have "length (dict_update (dict_setitem k v d) items) \<le> length (dict_setitem k v d) + length items"
    by (rule Cons.IH)
  also have "\<dots> \<le> Suc (length d) + length items"
    using length_dict_setitem [of k v d] by simp
  finally show ?case by (simp add: p dict_update_Cons)
qed

lemma dict_update_copy:
  "distinct (map fst (d @ items)) \<Longrightarrow> dict_update d items = d @ items"
proof (induction items arbitrary: d)
  case Nil
  show ?case by (simp add: dict_update_Nil)
next
  case (Cons p items)
  obtain k v where p: "p = (k, v)" by (cases p)
  from Cons.prems have new: "k \<notin> fst ` set d" by (auto simp: p)
  from Cons.prems have "distinct (map fst ((d @ [(k, v)]) @ items))" by (simp add: p)
  then have "dict_update (d @ [(k, v)]) items = (d @ [(k, v)]) @ items" by (rule Cons.IH)
  with new show ?case by (simp add: p dict_update_Cons dict_setitem_new)
qed

lemma dict_update_empty_copy: "distinct (map fst d) \<Longrightarrow> dict_update [] d = d"
  using dict_update_copy [of "[]" d] by simp

lemma map_of_rev_distinct: "distinct (map fst d) \<Longrightarrow> map_of (rev d) = map_of d"
proof (induction d)
  case Nil
  show ?case by simp
next
  case (Cons p d)
  obtain k v where p: "p = (k, v)" by (cases p)
  from Cons.prems have new: "map_of d k = None"
    by (auto simp: p map_of_eq_None_iff)
  from Cons have "map_of (rev (p # d)) = [k \<mapsto> v] ++ map_of d"
    by (simp add: p map_of_append)
  also have "\<dots> = map_of (p # d)"
    using new by (auto simp: p fun_eq_iff map_add_def split: option.splits)
  finally show ?case .
qed

lemma map_of_dict_of_pairs: "map_of (dict_of_pairs pairs) = map_of (rev pairs)"
  by (simp add: dict_of_pairs_def map_of_dict_update)

lemma distinct_dict_of_pairs: "distinct (map fst (dict_of_pairs pairs))"
  by (simp add: dict_of_pairs_def distinct_dict_update)

lemma length_dict_of_pairs: "length (dict_of_pairs pairs) \<le> length pairs"
  using length_dict_update [of "[]" pairs] by (simp add: dict_of_pairs_def)

lemma dict_unpack_Nil: "distinct (map fst b) \<Longrightarrow> dict_unpack [] b = b"
  by (simp add: dict_unpack_def dict_update_Nil dict_update_empty_copy)

lemma distinct_dict_unpack: "distinct (map fst (dict_unpack a b))"
  by (simp add: dict_unpack_def distinct_dict_update)

text \<open>In a list of items the last item with a given key decides the value.\<close>

lemma map_of_rev_tuples:
  "map_of (rev (map get_as_tuple expr)) k =
     (case filter (\<lambda>t. field t = k) expr of
        [] \<Rightarrow> None
      | t # ts \<Rightarrow> Some (py_join '','' (values (last (t # ts)))))"
proof (induction expr rule: rev_induct)
  case Nil
  show ?case by simp
next
  case (snoc t expr)
  show ?case
  proof (cases "field t = k")
    case True
    then show ?thesis
      by (cases "filter (\<lambda>t. field t = k) expr") (simp_all add: get_as_tuple_def)
  next
    case False
    with snoc show ?thesis by (simp add: get_as_tuple_def)
  qed
qed

lemma map_of_tuples_None:
  "k \<notin> field ` set expr \<Longrightarrow> map_of (rev (map get_as_tuple expr)) k = None"
  by (auto simp: map_of_eq_None_iff get_as_tuple_def image_iff)

section \<open>Serializing predicates into the parameters\<close>

lemma run_query_params_dict:
  "run_query_params expr (ParamDict d) =
     Inr (ParamDict (if expr = [] then d
                     else dict_unpack d (dict_of_pairs (map get_as_tuple expr))))"
  by (cases d) (simp_all add: run_query_params_def)

lemma run_query_params_default:
  "run_query_params expr (ParamStr []) =
     Inr (if expr = [] then ParamStr []
          else ParamDict (dict_unpack [] (dict_of_pairs (map get_as_tuple expr))))"
  by (simp add: run_query_params_def)

lemma run_query_params_str:
  "expr \<noteq> [] \<Longrightarrow> s \<noteq> [] \<Longrightarrow> run_query_params expr (ParamStr s) = Inl TypeError"
  by (simp add: run_query_params_def)

lemma map_of_serialized:
  "map_of (dict_unpack d (dict_of_pairs (map get_as_tuple expr))) =
     map_of (rev d) ++ map_of (rev (map get_as_tuple expr))"
proof -
  have "map_of (rev (dict_of_pairs (map get_as_tuple expr))) =
          map_of (rev (map get_as_tuple expr))"
    by (simp add: map_of_rev_distinct distinct_dict_of_pairs map_of_dict_of_pairs)
  then show ?thesis
    by (simp add: dict_unpack_def map_of_dict_update)
qed

lemma dict_of_pairs_Nil: "dict_of_pairs [] = []"
  by (simp add: dict_of_pairs_def dict_update_Nil)

lemma tuple_operator_update: "get_as_tuple \<circ> operator_update g = get_as_tuple"
  by (rule ext) (simp add: get_as_tuple_def)

text \<open>
  Claim C1. For every predicate expression and every dictionary of parameters, the parameters
  after serialization are the union of the dictionary and the serialized tuples (the tuples
  win on a common key), and every key that is not the field of a term keeps the value it
  had. The example of the specification: the two-term expression serialized into
  \<^verbatim>\<open>{"limit": "10"}\<close> gives \<^verbatim>\<open>{"limit": "10", "line_type": "QA,QB", "askprice": "3"}\<close>.
\<close>

theorem serialize_union:
  assumes "distinct (map fst d)"
  shows "(\<exists>r. run_query_params expr (ParamDict d) = Inr (ParamDict r)
            \<and> map_of r = map_of d ++ map_of (dict_of_pairs (map get_as_tuple expr))
            \<and> (\<forall>k. k \<notin> field ` set expr \<longrightarrow> map_of r k = map_of d k)
            \<and> distinct (map fst r))
         \<and> run_query_params example_expression (ParamDict [(''limit'', ''10'')]) =
             Inr (ParamDict [(''limit'', ''10''), (''line_type'', ''QA,QB''), (''askprice'', ''3'')])"
proof (intro conjI)
  let ?r = "if expr = [] then d else dict_unpack d (dict_of_pairs (map get_as_tuple expr))"
  have "map_of (rev d) = map_of d"
    using assms by (rule map_of_rev_distinct)
  then have m: "map_of ?r = map_of d ++ map_of (rev (map get_as_tuple expr))"
    by (simp add: map_of_serialized)
  have "run_query_params expr (ParamDict d) = Inr (ParamDict ?r)"
    by (rule run_query_params_dict)
  moreover have "map_of ?r = map_of d ++ map_of (dict_of_pairs (map get_as_tuple expr))"
    by (simp only: m map_of_dict_of_pairs)
  moreover have "\<forall>k. k \<notin> field ` set expr \<longrightarrow> map_of ?r k = map_of d k"
    by (simp only: m) (simp add: map_add_def map_of_tuples_None)
  moreover have "distinct (map fst ?r)"
    using assms by (simp add: distinct_dict_unpack)
  ultimately show "\<exists>r. run_query_params expr (ParamDict d) = Inr (ParamDict r)
      \<and> map_of r = map_of d ++ map_of (dict_of_pairs (map get_as_tuple expr))
      \<and> (\<forall>k. k \<notin> field ` set expr \<longrightarrow> map_of r k = map_of d k)
      \<and> distinct (map fst r)"
    by blast
next
  show "run_query_params example_expression (ParamDict [(''limit'', ''10'')]) =
          Inr (ParamDict [(''limit'', ''10''), (''line_type'', ''QA,QB''), (''askprice'', ''3'')])"
    by (simp add: run_query_params_def example_expression_def get_as_tuple_def
        dict_of_pairs_def dict_unpack_def dict_update_def)
qed

theorem serialize_union_witness:
  "distinct (map fst [(''limit'', ''10'')])
   \<and> (\<exists>r. run_query_params example_expression (ParamDict [(''limit'', ''10'')]) = Inr (ParamDict r)
          \<and> map_of r ''limit'' = Some ''10'')"
proof -
  have d: "distinct (map fst [(''limit'', ''10'')])" by simp
  have k: "''limit'' \<notin> field ` set example_expression"
    by (simp add: example_expression_def)
  from serialize_union [OF d, of example_expression] k
  show ?thesis by auto
qed

text \<open>
  Claim C2. Serializing an expression of \<open>n\<close> terms into the empty dictionary gives a
  dictionary with at most \<open>n\<close> keys, no key twice, and the value of a key is the comma-joined
  value list of the last term of the expression that has this field: a later term overwrites
  an earlier one with the same field.
\<close>

theorem serialize_last_write_wins:
  "\<exists>r. run_query_params expr (ParamDict []) = Inr (ParamDict r)
       \<and> distinct (map fst r)
       \<and> length r \<le> length expr
       \<and> (\<forall>k. map_of r k =
                (case filter (\<lambda>t. field t = k) expr of
                   [] \<Rightarrow> None
                 | t # ts \<Rightarrow> Some (py_join '','' (values (last (t # ts))))))"
proof -
  let ?preds = "dict_of_pairs (map get_as_tuple expr)"
  let ?r = "if expr = [] then [] else dict_unpack [] ?preds"
  have r: "?r = ?preds"
    by (simp add: dict_unpack_Nil distinct_dict_of_pairs dict_of_pairs_Nil)
  have "run_query_params expr (ParamDict []) = Inr (ParamDict ?preds)"
    using run_query_params_dict [of expr "[]"] by (simp only: r)
  moreover have "distinct (map fst ?preds)"
    by (rule distinct_dict_of_pairs)
  moreover have "length ?preds \<le> length expr"
    using length_dict_of_pairs [of "map get_as_tuple expr"] by simp
  moreover have "\<forall>k. map_of ?preds k =
      (case filter (\<lambda>t. field t = k) expr of
         [] \<Rightarrow> None
       | t # ts \<Rightarrow> Some (py_join '','' (values (last (t # ts)))))"
    by (simp add: map_of_dict_of_pairs map_of_rev_tuples)
  ultimately show ?thesis by blast
qed

text \<open>
  Claim C3. The tuple of a term is its field, unchanged, with the comma-join of its values in
  their order; nothing is escaped and the operator is not encoded: a term with any operator
  has the tuple of the equality term with the same field and values, and the serialized
  parameters do not depend on the operators of the expression.
\<close>

theorem tuple_ignores_operator:
  "get_as_tuple t = (field t, py_join '','' (values t))
   \<and> get_as_tuple (t\<lparr>operator := op\<rparr>) = get_as_tuple t
   \<and> get_as_tuple \<lparr>field = f, operator = op, values = vs\<rparr> =
       get_as_tuple \<lparr>field = f, operator = EQ, values = vs\<rparr>
   \<and> run_query_params (map (\<lambda>t. t\<lparr>operator := op\<rparr>) expr) params =
       run_query_params expr params"
  by (simp add: run_query_params_def tuple_operator_update) (simp add: get_as_tuple_def)

text \<open>
  Claim C4. Serializing an expression of zero terms returns the parameters it was given,
  unchanged, whatever they are.
\<close>

theorem empty_expression_unchanged: "run_query_params [] params = Inr params"
  by (simp add: run_query_params_def)

text \<open>
  Claim C5. Serialization raises nothing: for every expression and every dictionary of
  parameters the lines return a dictionary; so they do for the default \<^verbatim>\<open>params=""\<close>.
\<close>

theorem serialize_never_raises:
  "(\<exists>r. run_query_params expr (ParamDict d) = Inr (ParamDict r))
   \<and> (\<exists>p. run_query_params expr (ParamStr []) = Inr p)"
  by (simp add: run_query_params_dict run_query_params_default)

text \<open>
  Claim C9. When the field of a term is also a key of the parameters the caller supplied,
  the result maps this key to the predicate's value, the comma-joined values of the last term
  with this field, and not to the caller's value.
\<close>

theorem predicate_overrides_param:
  assumes "k \<in> fst ` set d" and "k \<in> field ` set expr"
  shows "\<exists>r. run_query_params expr (ParamDict d) = Inr (ParamDict r)
            \<and> map_of r k = map_of (dict_of_pairs (map get_as_tuple expr)) k
            \<and> map_of r k =
                Some (py_join '','' (values (last (filter (\<lambda>t. field t = k) expr))))"
proof -
  let ?r = "if expr = [] then d else dict_unpack d (dict_of_pairs (map get_as_tuple expr))"
  from assms(2) obtain t ts where f: "filter (\<lambda>t. field t = k) expr = t # ts"
    by (cases "filter (\<lambda>t. field t = k) expr") (auto simp: filter_empty_conv)
  have v: "map_of (rev (map get_as_tuple expr)) k =
             Some (py_join '','' (values (last (filter (\<lambda>t. field t = k) expr))))"
    using map_of_rev_tuples [of expr k] by (simp add: f)
  from assms(2) have "expr \<noteq> []" by auto
  then have "map_of ?r k = map_of (rev (map get_as_tuple expr)) k"
    using v by (simp add: map_of_serialized map_add_def)
  moreover have "run_query_params expr (ParamDict d) = Inr (ParamDict ?r)"
    by (rule run_query_params_dict)
  ultimately show ?thesis
    using v by (simp add: map_of_dict_of_pairs)
qed

theorem predicate_overrides_param_witness:
  "''askprice'' \<in> fst ` set [(''askprice'', ''1''), (''limit'', ''10'')]
   \<and> ''askprice'' \<in> field ` set example_expression
   \<and> (\<exists>r. run_query_params example_expression
             (ParamDict [(''askprice'', ''1''), (''limit'', ''10'')]) = Inr (ParamDict r)
          \<and> map_of r ''askprice'' = Some ''3'')"
proof -
  have a: "''askprice'' \<in> fst ` set [(''askprice'', ''1''), (''limit'', ''10'')]" by simp
  have b: "''askprice'' \<in> field ` set example_expression"
    by (simp add: example_expression_def)
  have c: "py_join '','' (values (last (filter (\<lambda>t. field t = ''askprice'') example_expression)))
             = ''3''"
    by (simp add: example_expression_def)
  from predicate_overrides_param [OF a b] obtain r where
    "run_query_params example_expression
       (ParamDict [(''askprice'', ''1''), (''limit'', ''10'')]) = Inr (ParamDict r)"
    and "map_of r ''askprice'' = Some ''3''"
    unfolding c by blast
  with a b show ?thesis by blast
qed

section \<open>Serialization on the heap\<close>

text \<open>
  With the caller's parameters at an allocated address, the lines on the heap compute what
  \<open>run_query_params\<close> computes on values, write no list object and no object that existed
  before, and only allocate.
\<close>

lemma run_query_heap_refines:
  assumes "params < next_free h"
  shows "case run_query_heap predicates params h of
           Inl e \<Rightarrow> run_query_params (lists h predicates) (objs h params) = Inl e
         | Inr (r, h') \<Rightarrow>
             run_query_params (lists h predicates) (objs h params) = Inr (objs h' r)
           \<and> lists h' = lists h
           \<and> (\<forall>a. a < next_free h \<longrightarrow> objs h' a = objs h a)
           \<and> next_free h \<le> next_free h'"
proof (cases "lists h predicates = []")
  case True
  then show ?thesis by (simp add: run_query_heap_def run_query_params_def)
next
  case False
  show ?thesis
  proof (cases "objs h params")
    case (ParamStr s)
    with False assms show ?thesis
      by (cases "s = []") (simp_all add: run_query_heap_def run_query_params_def new_dict_def)
  next
    case (ParamDict d)
    with False assms show ?thesis
      by (cases "d = []") (simp_all add: run_query_heap_def run_query_params_def new_dict_def)
  qed
qed

text \<open>
  Claim C6. Serialization is pure and deterministic. Run on a heap where the caller's
  parameters are a dictionary, the lines return a dictionary whose content is the value
  \<open>run_query_params\<close> gives; the expression and every object that existed before the run,
  the caller's dictionary among them, are as they were; and a second run with the same
  arguments returns a dictionary with the same content, again changing nothing that existed.
\<close>

theorem serialize_pure:
  assumes "params < next_free h" and "objs h params = ParamDict d"
  shows "\<exists>r h'. run_query_heap predicates params h = Inr (r, h')
           \<and> run_query_params (lists h predicates) (ParamDict d) = Inr (objs h' r)
           \<and> lists h' = lists h
           \<and> (\<forall>a. a < next_free h \<longrightarrow> objs h' a = objs h a)
           \<and> (\<exists>r2 h2. run_query_heap predicates params h' = Inr (r2, h2)
                  \<and> objs h2 r2 = objs h' r
                  \<and> lists h2 = lists h
                  \<and> (\<forall>a. a < next_free h \<longrightarrow> objs h2 a = objs h a))"
proof -
  obtain q where pure: "run_query_params (lists h predicates) (ParamDict d) = Inr q"
    using run_query_params_dict [of "lists h predicates" d] by simp
  from run_query_heap_refines [OF assms(1), of predicates] pure assms(2)
  obtain r h' where run1: "run_query_heap predicates params h = Inr (r, h')"
    by (cases "run_query_heap predicates params h") auto
  from run_query_heap_refines [OF assms(1), of predicates] run1 pure assms(2)
  have res1: "objs h' r = q"
    and lists1: "lists h' = lists h"
    and frame1: "\<forall>a. a < next_free h \<longrightarrow> objs h' a = objs h a"
    and grow1: "next_free h \<le> next_free h'"
    by simp_all
  from assms(1) grow1 have alloc: "params < next_free h'" by simp
  from assms frame1 have same: "objs h' params = ParamDict d" by simp
  from run_query_heap_refines [OF alloc, of predicates] pure same lists1
  obtain r2 h2 where run2: "run_query_heap predicates params h' = Inr (r2, h2)"
    by (cases "run_query_heap predicates params h'") auto
  from run_query_heap_refines [OF alloc, of predicates] run2 pure same lists1
  have res2: "objs h2 r2 = q"
    and lists2: "lists h2 = lists h'"
    and frame2: "\<forall>a. a < next_free h' \<longrightarrow> objs h2 a = objs h' a"
    by simp_all
  from frame1 frame2 grow1 have "\<forall>a. a < next_free h \<longrightarrow> objs h2 a = objs h a"
    by simp
  with run1 run2 pure res1 res2 lists1 lists2 frame1 show ?thesis by simp
qed

theorem serialize_pure_witness:
  "(0::nat) < next_free example_heap
   \<and> objs example_heap 0 = ParamDict [(''limit'', ''10'')]
   \<and> (\<exists>r h'. run_query_heap 0 0 example_heap = Inr (r, h')
          \<and> objs h' r =
              ParamDict [(''limit'', ''10''), (''line_type'', ''QA,QB''), (''askprice'', ''3'')]
          \<and> objs h' 0 = ParamDict [(''limit'', ''10'')]
          \<and> lists h' 0 = example_expression)"
proof -
  have a: "(0::nat) < next_free example_heap"
    by (simp add: example_heap_def)
  have b: "objs example_heap 0 = ParamDict [(''limit'', ''10'')]"
    by (simp add: example_heap_def)
  have c: "lists example_heap 0 = example_expression"
    by (simp add: example_heap_def)
  have v: "run_query_params example_expression (ParamDict [(''limit'', ''10'')]) =
      Inr (ParamDict [(''limit'', ''10''), (''line_type'', ''QA,QB''), (''askprice'', ''3'')])"
    by (simp add: run_query_params_def example_expression_def get_as_tuple_def
        dict_of_pairs_def dict_unpack_def dict_update_def)
  from serialize_pure [OF a b, of 0] obtain r h' where
    "run_query_heap 0 0 example_heap = Inr (r, h')"
    and "run_query_params (lists example_heap 0) (ParamDict [(''limit'', ''10'')]) = Inr (objs h' r)"
    and "lists h' = lists example_heap"
    and "\<forall>a. a < next_free example_heap \<longrightarrow> objs h' a = objs example_heap a"
    by blast
  with a b c v show ?thesis by auto
qed

section \<open>The conversion helpers\<close>

lemma py_str_IStr: "py_str \<circ> IStr = id"
  by (rule ext) simp

text \<open>
  Claim C10. The conversion helpers form a round trip: for every string \<open>s\<close>, splitting it
  with \<open>str_to_list\<close> and joining the pieces with \<open>list_to_str\<close> gives \<open>s\<close> back. Each helper
  returns its argument unchanged when it already has the target type: \<open>str_to_list\<close> is the
  identity on lists and always returns a list for a string, \<open>list_to_str\<close> is the identity on
  strings and always returns a string for a list.
\<close>

theorem str_list_round_trip:
  "and_then (str_to_list f (VStr s)) (list_to_str g) = Inr (VStr s)
   \<and> str_to_list f (VList xs) = Inr (VList xs)
   \<and> list_to_str g (VStr s) = Inr (VStr s)
   \<and> (\<exists>ys. str_to_list f (VStr s) = Inr (VList ys))
   \<and> (\<exists>t. list_to_str g (VList xs) = Inr (VStr t))"
  by (simp add: and_then_def py_str_IStr py_join_py_split)

section \<open>The parser rejects malformed input\<close>

subsection \<open>Characters, whitespace and blank input\<close>













subsection \<open>The conjunction keyword\<close>






subsection \<open>The field and the operator token\<close>










subsection \<open>A trailing comma\<close>





















subsection \<open>The error kinds of a failed parse\<close>








subsection \<open>Input that continues after a complete term\<close>






















subsection \<open>The claims about the parser\<close>

text \<open>
  Claim C7. The string \<^verbatim>\<open>line_type = QA,QB and askprice >= 3\<close> parses to exactly two terms,
  \<open>line_type\<close> with operator \<open>EQ\<close> and values \<open>QA\<close>, \<open>QB\<close>, then \<open>askprice\<close> with operator
  \<open>GTE\<close> and the value \<open>3\<close>; this expression serialized into the empty dictionary gives
  exactly \<^verbatim>\<open>{"line_type": "QA,QB", "askprice": "3"}\<close>.
\<close>

theorem parse_and_serialize_example:
  "parse ''line_type = QA,QB and askprice >= 3'' =
     Inr [\<lparr>field = ''line_type'', operator = EQ, values = [''QA'', ''QB'']\<rparr>,
          \<lparr>field = ''askprice'', operator = GTE, values = [''3'']\<rparr>]
   \<and> run_query_params
         [\<lparr>field = ''line_type'', operator = EQ, values = [''QA'', ''QB'']\<rparr>,
          \<lparr>field = ''askprice'', operator = GTE, values = [''3'']\<rparr>]
         (ParamDict []) =
       Inr (ParamDict [(''line_type'', ''QA,QB''), (''askprice'', ''3'')])"
proof
  show "parse ''line_type = QA,QB and askprice >= 3'' =
     Inr [\<lparr>field = ''line_type'', operator = EQ, values = [''QA'', ''QB'']\<rparr>,
          \<lparr>field = ''askprice'', operator = GTE, values = [''3'']\<rparr>]"
    by code_simp
next
  show "run_query_params
         [\<lparr>field = ''line_type'', operator = EQ, values = [''QA'', ''QB'']\<rparr>,
          \<lparr>field = ''askprice'', operator = GTE, values = [''3'']\<rparr>]
         (ParamDict []) =
       Inr (ParamDict [(''line_type'', ''QA,QB''), (''askprice'', ''3'')])"
    by (simp add: run_query_params_def get_as_tuple_def dict_of_pairs_def dict_unpack_def
        dict_update_def)
qed




end
